theory Spec2Isabelle
  imports Complex_Main
begin

section \<open>Data model\<close>

text \<open>
  The functions of \<^verbatim>\<open>streamlit_app.py\<close> work on a pandas DataFrame whose rows are
  quotes. A row carries the six columns the functions read: \<^verbatim>\<open>symbol\<close>, \<^verbatim>\<open>open\<close>,
  \<^verbatim>\<open>high\<close>, \<^verbatim>\<open>low\<close>, \<^verbatim>\<open>close\<close> and \<^verbatim>\<open>lastTrade\<close>. The indicator function reads
  its closing prices from the column \<^verbatim>\<open>lastTrade\<close>, the strategy function from the
  column \<^verbatim>\<open>close\<close>; the two are separate columns of the frame. Prices are floats in
  the source and real numbers here. The indicator's additions and halvings are taken
  over the reals; the strategy's mean, whose comparison with the open decides the action,
  is computed with the rounding and the overflow of binary64 arithmetic.
  A pandas Series is a list of optional values, \<open>None\<close> being NaN; the cells of a
  frame are numbers, the NaN of a Series comes from the windows and the shifts.

  The embedding covers \<^verbatim>\<open>calculate_ichimoku\<close>, \<^verbatim>\<open>apply_trading_strategy\<close> and
  \<^verbatim>\<open>log_trade\<close>. The OAuth session, the HTTP fetch and the chart are outside it. The
  top level of the module calls \<^verbatim>\<open>logging.basicConfig\<close> although \<^verbatim>\<open>logging\<close> is never
  imported; the three functions do not use \<^verbatim>\<open>logging\<close> and are modelled as they are
  defined.
\<close>

record quote =
  symbol :: string
  "open" :: real
  high :: real
  low :: real
  close :: real
  lastTrade :: real

type_synonym series = "real option list"

text \<open>\<^verbatim>\<open>data['high']\<close> and its siblings: one column of the frame as a Series.\<close>

definition column :: "(quote \<Rightarrow> real) \<Rightarrow> quote list \<Rightarrow> series" where
  "column f data = map (\<lambda>r. Some (f r)) data"

section \<open>Series operations of pandas\<close>

text \<open>The observations of a window: its values that are not NaN.\<close>

fun valid :: "series \<Rightarrow> real list" where
  "valid [] = []"
| "valid (None # xs) = valid xs"
| "valid (Some v # xs) = v # valid xs"

text \<open>The trailing window of size \<open>w\<close> that ends at position \<open>i\<close>, clipped at the start.\<close>

definition window :: "nat \<Rightarrow> 'a list \<Rightarrow> nat \<Rightarrow> 'a list" where
  "window w xs i = drop (Suc i - w) (take (Suc i) xs)"

fun extremum :: "(real \<Rightarrow> real \<Rightarrow> real) \<Rightarrow> real list \<Rightarrow> real option" where
  "extremum f [] = None"
| "extremum f (x # xs) = Some (fold f xs x)"

text \<open>
  \<^verbatim>\<open>s.rolling(window=w).max()\<close> and \<^verbatim>\<open>.min()\<close>. The default \<^verbatim>\<open>min_periods\<close> of a fixed
  window is the window size: a position with fewer than \<open>w\<close> observations in its window
  is NaN.
\<close>

definition rolling :: "(real \<Rightarrow> real \<Rightarrow> real) \<Rightarrow> nat \<Rightarrow> series \<Rightarrow> series" where
  "rolling f w xs =
     map (\<lambda>i. let obs = valid (window w xs i)
               in if length obs < w then None else extremum f obs)
         [0..<length xs]"

definition rolling_max :: "nat \<Rightarrow> series \<Rightarrow> series" where
  "rolling_max w xs = rolling max w xs"

definition rolling_min :: "nat \<Rightarrow> series \<Rightarrow> series" where
  "rolling_min w xs = rolling min w xs"

text \<open>Elementwise \<^verbatim>\<open>a + b\<close> of two Series on the same index, and \<^verbatim>\<open>a / c\<close>; NaN propagates.\<close>

fun add_cell :: "real option \<Rightarrow> real option \<Rightarrow> real option" where
  "add_cell (Some u) (Some v) = Some (u + v)"
| "add_cell _ _ = None"

definition add_series :: "series \<Rightarrow> series \<Rightarrow> series" where
  "add_series a b = map2 add_cell a b"

definition div_series :: "series \<Rightarrow> real \<Rightarrow> series" where
  "div_series a c = map (map_option (\<lambda>v. v / c)) a"

text \<open>
  \<^verbatim>\<open>s.shift(k)\<close>: the values move \<open>k\<close> positions towards the end (towards the start for
  negative \<open>k\<close>), the length stays, the vacated positions are NaN.
\<close>

definition shift :: "int \<Rightarrow> series \<Rightarrow> series" where
  "shift k xs =
     (let n = length xs
      in if 0 \<le> k then replicate (min (nat k) n) None @ take (n - nat k) xs
         else drop (nat (- k)) xs @ replicate (min (nat (- k)) n) None)"

section \<open>Float arithmetic of the mean\<close>

text \<open>
  A float64 scalar is a finite number, an infinity or NaN. The finite numbers are the
  multiples \<open>m * 2 ^ e\<close> with \<open>\<bar>m\<bar> < 2 ^ 53\<close> and \<open>- 1074 \<le> e \<le> 971\<close>; signed zeros are
  not told apart.
\<close>

datatype float64 = Fin real | PInf | NInf | NaN

text \<open>Rounding to the nearest integer, a tie to the even one.\<close>

definition rne :: "real \<Rightarrow> int" where
  "rne y = (let f = \<lfloor>y\<rfloor>; d = y - of_int f
            in if d < 1 / 2 then f else if 1 / 2 < d then f + 1
               else if even f then f else f + 1)"

text \<open>
  The binary exponent of \<open>x\<close> within the range of the normal numbers: the greatest \<open>e\<close>
  with \<open>lo \<le> e < hi\<close> and \<open>2 ^ e \<le> x\<close>, and \<open>lo\<close> when there is none, by bisection.
\<close>

function find_exp :: "int \<Rightarrow> int \<Rightarrow> real \<Rightarrow> int" where
  "find_exp lo hi x =
     (if hi \<le> lo + 1 then lo
      else let mid = (lo + hi) div 2
           in if 2 powi mid \<le> x then find_exp mid hi x else find_exp lo mid x)"
  by pat_completeness auto
termination
  by (relation "measure (\<lambda>(lo, hi, x). nat (hi - lo))") auto

declare find_exp.simps [simp del]

text \<open>
  The result of an arithmetic operation whose exact value is \<open>x\<close>: \<open>x\<close> rounded to the
  nearest multiple of the spacing of the floats around it, which is 52 binary places below
  its exponent and \<open>2 ^ - 1074\<close> for the subnormal numbers; a rounded value of magnitude
  \<open>2 ^ 1024\<close> or more is an infinity.
\<close>

definition fl :: "real \<Rightarrow> float64" where
  "fl x = (let q = 2 powi (find_exp (- 1022) 1024 \<bar>x\<bar> - 52);
               r = of_int (rne (x / q)) * q
           in if 2 ^ 1024 \<le> r then PInf else if r \<le> - (2 ^ 1024) then NInf else Fin r)"

fun fadd :: "float64 \<Rightarrow> float64 \<Rightarrow> float64" where
  "fadd (Fin a) (Fin b) = fl (a + b)"
| "fadd NaN _ = NaN"
| "fadd _ NaN = NaN"
| "fadd PInf NInf = NaN"
| "fadd NInf PInf = NaN"
| "fadd PInf _ = PInf"
| "fadd _ PInf = PInf"
| "fadd NInf _ = NInf"
| "fadd _ NInf = NInf"

text \<open>Division by a count, which is a positive whole number.\<close>

fun fdiv :: "float64 \<Rightarrow> real \<Rightarrow> float64" where
  "fdiv (Fin a) c = fl (a / c)"
| "fdiv PInf c = PInf"
| "fdiv NInf c = NInf"
| "fdiv NaN c = NaN"

text \<open>Float comparison: false as soon as one side is NaN.\<close>

fun gt :: "float64 \<Rightarrow> float64 \<Rightarrow> bool" where
  "gt (Fin a) (Fin b) = (b < a)"
| "gt NaN _ = False"
| "gt _ NaN = False"
| "gt PInf PInf = False"
| "gt PInf _ = True"
| "gt NInf _ = False"
| "gt (Fin a) PInf = False"
| "gt (Fin a) NInf = True"

definition lt :: "float64 \<Rightarrow> float64 \<Rightarrow> bool" where
  "lt a b = gt b a"

text \<open>
  \<^verbatim>\<open>s.head(n)\<close> and \<^verbatim>\<open>s.mean()\<close>. The mean skips NaN and is NaN without observations;
  otherwise it is the float sum of the observations, added one after the other in series
  order to a sum that starts at zero, divided by their count.
\<close>

definition head :: "nat \<Rightarrow> 'a list \<Rightarrow> 'a list" where
  "head n xs = take n xs"

definition mean :: "series \<Rightarrow> float64" where
  "mean xs = (let obs = valid xs
              in if obs = [] then NaN
                 else fdiv (fold (\<lambda>v acc. fadd acc (Fin v)) obs (Fin 0)) (real (length obs)))"

section \<open>Application state\<close>

text \<open>
  The functions write to two things outside themselves: the Streamlit page
  (\<^verbatim>\<open>st.success\<close>, \<^verbatim>\<open>st.info\<close>, \<^verbatim>\<open>st.error\<close>) and the file \<^verbatim>\<open>trade_log.csv\<close>. Both are
  fields of the state. A message is its level and its text, the text in pieces where the
  source formats a value into it. The file is a list of rows, a row a list of fields in the
  order \<^verbatim>\<open>writerow\<close> receives them; \<open>None\<close> is the file that does not exist. Opening
  and writing the file are taken to succeed. The clock reading of
  \<^verbatim>\<open>datetime.datetime.now()\<close> is an argument.
\<close>

type_synonym datetime = nat

record trade_info =
  ti_symbol :: string
  ti_action :: string
  ti_price :: real

datatype level = Success | Info | Error

datatype piece = Txt string | Num real | Dict trade_info

type_synonym message = "level \<times> piece list"

datatype field = FTime datetime | FStr string | FNum real

type_synonym row = "field list"

record app =
  page :: "message list"
  trade_log :: "row list option"

definition st_success :: "piece list \<Rightarrow> app \<Rightarrow> app" where
  "st_success m s = s\<lparr>page := page s @ [(Success, m)]\<rparr>"

definition st_info :: "piece list \<Rightarrow> app \<Rightarrow> app" where
  "st_info m s = s\<lparr>page := page s @ [(Info, m)]\<rparr>"

definition st_error :: "piece list \<Rightarrow> app \<Rightarrow> app" where
  "st_error m s = s\<lparr>page := page s @ [(Error, m)]\<rparr>"

section \<open>The Ichimoku indicator\<close>

type_synonym ichimoku = "series \<times> series \<times> series \<times> series \<times> series"

definition calculate_ichimoku :: "quote list option \<Rightarrow> app \<Rightarrow> ichimoku option \<times> app" where
  "calculate_ichimoku data s =
     (if data \<noteq> None \<and> 52 \<le> length (the data) then
        (let high_prices = column high (the data);
             low_prices = column low (the data);
             close_prices = column lastTrade (the data);
             tenkan_sen = div_series (add_series (rolling_max 9 high_prices)
                                                 (rolling_min 9 low_prices)) 2;
             kijun_sen = div_series (add_series (rolling_max 26 high_prices)
                                                (rolling_min 26 low_prices)) 2;
             senkou_span_a = shift 26 (div_series (add_series tenkan_sen kijun_sen) 2);
             senkou_span_b = shift 26 (div_series (add_series (rolling_max 52 high_prices)
                                                              (rolling_min 52 low_prices)) 2);
             chikou_span = shift (- 26) close_prices
         in (Some (tenkan_sen, kijun_sen, senkou_span_a, senkou_span_b, chikou_span), s))
      else
        (None, st_error [Txt ''Not enough data for Ichimoku Cloud calculation.''] s))"

section \<open>The trade log and the strategy\<close>

definition log_trade :: "datetime \<Rightarrow> trade_info \<Rightarrow> app \<Rightarrow> app" where
  "log_trade now trade_info s =
     (let r = [FTime now, FStr (ti_symbol trade_info), FStr (ti_action trade_info),
               FNum (ti_price trade_info)];
          s1 = s\<lparr>trade_log := Some (case trade_log s of None \<Rightarrow> [r] | Some rows \<Rightarrow> rows @ [r])\<rparr>
      in st_success [Txt ''Trade logged: '', Dict trade_info] s1)"

definition apply_trading_strategy :: "datetime \<Rightarrow> quote list option \<Rightarrow> real \<Rightarrow> app \<Rightarrow> app" where
  "apply_trading_strategy now data target_price s =
     (if data \<noteq> None \<and> 5 \<le> length (the data) then
        (let avg_close = mean (head 5 (column close (the data)));
             first_open = Fin (open (hd (the data)));
             (action, s1) =
               (if gt avg_close first_open then
                  (''buy call'',
                   st_success [Txt ''Average close is above the first open; buying calls at $'',
                               Num target_price] s)
                else if lt avg_close first_open then
                  (''buy put'',
                   st_success [Txt ''Average close is below the first open; buying puts at $'',
                               Num target_price] s)
                else
                  (''hold'',
                   st_info [Txt ''Average close is equal to the first open; no action recommended.''] s))
         in log_trade now
              \<lparr>ti_symbol = symbol (hd (the data)), ti_action = action, ti_price = target_price\<rparr> s1)
      else st_error [Txt ''Not enough data to apply the strategy.''] s)"

text \<open>What the log holds: the rows of the file, none while the file does not exist.\<close>

definition entries :: "app \<Rightarrow> row list" where
  "entries s = (case trade_log s of None \<Rightarrow> [] | Some rows \<Rightarrow> rows)"

section \<open>Sample data\<close>

text \<open>
  Frames and a state for the examples: one quote with a given open and close, a frame of
  \<open>n\<close> quotes whose prices rise by one from row to row, the float that the literal
  \<^verbatim>\<open>0.11\<close> denotes, and the state of a fresh run, with an empty page and no log file.
\<close>

definition bar :: "real \<Rightarrow> real \<Rightarrow> quote" where
  "bar opn c = \<lparr>symbol = ''XYZ'', open = opn, high = c + 1, low = c - 1, close = c, lastTrade = c\<rparr>"

definition ramp :: "nat \<Rightarrow> quote list" where
  "ramp n = map (\<lambda>k. \<lparr>symbol = ''XYZ'', open = real k, high = real k + 1, low = real k - 1,
                        close = real k, lastTrade = 2 * real k\<rparr>) [0..<n]"

definition eleven_cents :: real where
  "eleven_cents = 7926335344172073 / 72057594037927936"

definition blank :: app where
  "blank = \<lparr>page = [], trade_log = None\<rparr>"

section \<open>Facts about the Series operations\<close>







text \<open>The bisection step by step, and what it finds.\<close>

lemma find_exp_stop: "hi \<le> lo + 1 \<Longrightarrow> find_exp lo hi x = lo"
  by (subst find_exp.simps) simp

lemma find_exp_up:
  "lo + 1 < hi \<Longrightarrow> 2 powi ((lo + hi) div 2) \<le> x \<Longrightarrow>
   find_exp lo hi x = find_exp ((lo + hi) div 2) hi x"
  by (subst find_exp.simps) (simp add: Let_def)

lemma find_exp_down:
  "lo + 1 < hi \<Longrightarrow> \<not> 2 powi ((lo + hi) div 2) \<le> x \<Longrightarrow>
   find_exp lo hi x = find_exp lo ((lo + hi) div 2) x"
  by (subst find_exp.simps) (simp add: Let_def)

lemmas fl_eval = fl_def rne_def find_exp_stop find_exp_up find_exp_down power_int_minus Let_def

lemma find_exp_bounds:
  "lo < hi \<Longrightarrow> 2 powi lo \<le> x \<Longrightarrow> x < 2 powi hi \<Longrightarrow>
   2 powi (find_exp lo hi x) \<le> x \<and> x < 2 powi (find_exp lo hi x + 1)
   \<and> lo \<le> find_exp lo hi x \<and> find_exp lo hi x < hi"
proof (induction lo hi x rule: find_exp.induct)
  case (1 lo hi x)
  show ?case
  proof (cases "hi \<le> lo + 1")
    case True
    with "1.prems" have "hi = lo + 1" by simp
    with "1.prems" show ?thesis by (simp add: find_exp_stop)
  next
    case False
    let ?mid = "(lo + hi) div 2"
    have m: "lo < ?mid" "?mid < hi" using False by auto
    show ?thesis
    proof (cases "2 powi ?mid \<le> x")
      case True
      from "1.IH"(1) [OF False refl True m(2) True "1.prems"(3)]
      show ?thesis using False True m by (simp add: find_exp_up)
    next
      case up: False
      then have "x < 2 powi ?mid" by simp
      from "1.IH"(2) [OF False refl up m(1) "1.prems"(2) this]
      show ?thesis using False up m by (simp add: find_exp_down)
    qed
  qed
qed

lemma mean_head5:
  assumes "5 \<le> length d"
  shows "mean (head 5 (column f d)) =
           fdiv (fadd (fadd (fadd (fadd (fadd (Fin 0) (Fin (f (d ! 0)))) (Fin (f (d ! 1))))
                                  (Fin (f (d ! 2)))) (Fin (f (d ! 3)))) (Fin (f (d ! 4)))) 5"
proof -
  obtain a b c e g r where d: "d = a # b # c # e # g # r"
    using assms by (auto simp: numeral_eq_Suc Suc_le_length_iff)
  show ?thesis
    by (simp add: d mean_def head_def column_def del: fadd.simps fdiv.simps)
qed

lemma length_rolling [simp]: "length (rolling f w xs) = length xs"
  by (simp add: rolling_def)

lemma length_rolling_max [simp]: "length (rolling_max w xs) = length xs"
  by (simp add: rolling_max_def)

lemma length_rolling_min [simp]: "length (rolling_min w xs) = length xs"
  by (simp add: rolling_min_def)

lemma length_column [simp]: "length (column f d) = length d"
  by (simp add: column_def)

lemma length_add_series [simp]: "length (add_series a b) = min (length a) (length b)"
  by (simp add: add_series_def)

lemma length_div_series [simp]: "length (div_series a c) = length a"
  by (simp add: div_series_def)

lemma length_shift [simp]: "length (shift k xs) = length xs"
  by (auto simp: shift_def Let_def)




lemma nth_shift_backward:
  assumes i: "i < length xs"
  shows "shift (- int k) xs ! i = (if i + k < length xs then xs ! (i + k) else None)"
proof (cases "k = 0")
  case True
  then show ?thesis using i by (simp add: shift_def)
next
  case False
  show ?thesis
  proof (cases "i + k < length xs")
    case True
    then have "i < length xs - k" by arith
    then show ?thesis using True False by (simp add: shift_def Let_def nth_append add.commute)
  next
    case False
    then have "i - (length xs - k) < min k (length xs)" and "\<not> i < length xs - k"
      using i \<open>k \<noteq> 0\<close> by arith+
    then show ?thesis using False \<open>k \<noteq> 0\<close> by (simp add: shift_def Let_def nth_append)
  qed
qed






lemma calculate_ichimoku_sufficient:
  assumes "52 \<le> length d"
  shows "calculate_ichimoku (Some d) s =
    (Some (div_series (add_series (rolling_max 9 (column high d)) (rolling_min 9 (column low d))) 2,
           div_series (add_series (rolling_max 26 (column high d)) (rolling_min 26 (column low d))) 2,
           shift 26 (div_series (add_series
              (div_series (add_series (rolling_max 9 (column high d)) (rolling_min 9 (column low d))) 2)
              (div_series (add_series (rolling_max 26 (column high d)) (rolling_min 26 (column low d))) 2)) 2),
           shift 26 (div_series (add_series (rolling_max 52 (column high d)) (rolling_min 52 (column low d))) 2),
           shift (- 26) (column lastTrade d)), s)"
  using assms by (simp add: calculate_ichimoku_def Let_def)


lemma length_ramp: "length (ramp n) = n"
  by (simp add: ramp_def)











section \<open>The indicator series\<close>





text \<open>
  C4. For a frame of \<open>N \<ge> 52\<close> rows the Chikou Span at position \<open>i\<close> is the closing
  price of the indicator, which it reads from the column \<^verbatim>\<open>lastTrade\<close>, at position
  \<open>i + 26\<close> for every \<open>i \<le> N - 27\<close>, and NaN for every later position, the last 26.
\<close>

theorem chikou_is_close_26_ahead:
  assumes "52 \<le> length d" and "i < length d"
  shows "\<exists>t k a b c. calculate_ichimoku (Some d) s = (Some (t, k, a, b, c), s)
     \<and> (i \<le> length d - 27 \<longrightarrow> c ! i = Some (lastTrade (d ! (i + 26))))
     \<and> (length d - 27 < i \<longrightarrow> c ! i = None)"
proof -
  have "shift (- 26) (column lastTrade d) ! i =
      (if i + 26 < length d then Some (lastTrade (d ! (i + 26))) else None)"
    using nth_shift_backward [of i "column lastTrade d" 26] assms(2)
    by (simp add: column_def)
  moreover have "i \<le> length d - 27 \<longleftrightarrow> i + 26 < length d"
    using assms(1) by arith
  ultimately show ?thesis
    unfolding calculate_ichimoku_sufficient [OF assms(1)] by auto
qed

text \<open>
  C4 on the rising frame of 60 rows: position 33 is the last with a value, row 59's.
\<close>

theorem chikou_is_close_26_ahead_witness:
  "(\<exists>t k a b c. calculate_ichimoku (Some (ramp 60)) blank = (Some (t, k, a, b, c), blank)
      \<and> c ! 33 = Some 118)
   \<and> (\<exists>t k a b c. calculate_ichimoku (Some (ramp 60)) blank = (Some (t, k, a, b, c), blank)
      \<and> c ! 34 = None)"
proof -
  have l: "52 \<le> length (ramp 60)" "33 < length (ramp 60)" "34 < length (ramp 60)"
    by (simp_all add: length_ramp)
  have v: "lastTrade (ramp 60 ! 59) = 118"
    by (simp add: ramp_def)
  show ?thesis
    using chikou_is_close_26_ahead [OF l(1) l(2), of blank]
          chikou_is_close_26_ahead [OF l(1) l(3), of blank]
    by (simp add: length_ramp v)
qed

text \<open>
  C5. The indicator returns series exactly for a frame of at least 52 rows; then there
  are five of them, each as long as the frame, and nothing is written to the page. For a
  shorter frame it returns nothing at all and reports the lack of data on the page.
\<close>

theorem ichimoku_all_or_nothing:
  "((\<exists>r. fst (calculate_ichimoku (Some d) s) = Some r) \<longleftrightarrow> 52 \<le> length d)
   \<and> (52 \<le> length d \<longrightarrow>
        (\<exists>t k a b c. calculate_ichimoku (Some d) s = (Some (t, k, a, b, c), s)
           \<and> length t = length d \<and> length k = length d \<and> length a = length d
           \<and> length b = length d \<and> length c = length d))
   \<and> (length d < 52 \<longrightarrow>
        calculate_ichimoku (Some d) s =
          (None, s\<lparr>page := page s @ [(Error, [Txt ''Not enough data for Ichimoku Cloud calculation.''])]\<rparr>))"
proof (intro conjI impI)
  show "(\<exists>r. fst (calculate_ichimoku (Some d) s) = Some r) \<longleftrightarrow> 52 \<le> length d"
    by (simp add: calculate_ichimoku_def Let_def)
next
  assume "52 \<le> length d"
  then show "\<exists>t k a b c. calculate_ichimoku (Some d) s = (Some (t, k, a, b, c), s)
           \<and> length t = length d \<and> length k = length d \<and> length a = length d
           \<and> length b = length d \<and> length c = length d"
    by (simp add: calculate_ichimoku_sufficient)
next
  assume "length d < 52"
  then show "calculate_ichimoku (Some d) s =
          (None, s\<lparr>page := page s @ [(Error, [Txt ''Not enough data for Ichimoku Cloud calculation.''])]\<rparr>)"
    by (simp add: calculate_ichimoku_def st_error_def)
qed

text \<open>
  C5 on rising frames of 52 and of 51 rows.
\<close>

theorem ichimoku_all_or_nothing_witness:
  "(\<exists>t k a b c. calculate_ichimoku (Some (ramp 52)) blank = (Some (t, k, a, b, c), blank)
      \<and> length t = 52 \<and> length k = 52 \<and> length a = 52 \<and> length b = 52 \<and> length c = 52)
   \<and> calculate_ichimoku (Some (ramp 51)) blank =
       (None, \<lparr>page = [(Error, [Txt ''Not enough data for Ichimoku Cloud calculation.''])],
               trade_log = None\<rparr>)"
  using ichimoku_all_or_nothing [of "ramp 52" blank] ichimoku_all_or_nothing [of "ramp 51" blank]
  by (simp add: length_ramp blank_def)

section \<open>The trade log\<close>

lemma entries_log_trade:
  "entries (log_trade now ti s) =
     entries s @ [[FTime now, FStr (ti_symbol ti), FStr (ti_action ti), FNum (ti_price ti)]]"
  by (simp add: entries_def log_trade_def st_success_def Let_def split: option.split)

lemma page_log_trade:
  "page (log_trade now ti s) = page s @ [(Success, [Txt ''Trade logged: '', Dict ti])]"
  by (simp add: log_trade_def st_success_def Let_def)

lemma trade_log_log_trade: "trade_log (log_trade now ti s) \<noteq> None"
  by (simp add: log_trade_def st_success_def Let_def)

text \<open>
  C8. An append to the trade log writes one row, the fields in the order timestamp,
  symbol, action, price, after all the rows the log held, which stay as they were and in
  their order. The file exists afterwards, also when it did not before. Nothing is
  deduplicated: logging the same trade twice at the same clock reading leaves two equal
  rows at the end.
\<close>

theorem log_trade_appends_one_row:
  "entries (log_trade now ti s) =
     entries s @ [[FTime now, FStr (ti_symbol ti), FStr (ti_action ti), FNum (ti_price ti)]]
   \<and> trade_log (log_trade now ti s) \<noteq> None
   \<and> entries (log_trade now ti (log_trade now ti s)) =
     entries s @ [[FTime now, FStr (ti_symbol ti), FStr (ti_action ti), FNum (ti_price ti)],
                  [FTime now, FStr (ti_symbol ti), FStr (ti_action ti), FNum (ti_price ti)]]"
  by (simp add: entries_log_trade trade_log_log_trade)

section \<open>The strategy\<close>

lemma hd_conv_nth0: "xs \<noteq> [] \<Longrightarrow> hd xs = xs ! 0"
  by (simp add: hd_conv_nth)

lemma strategy_sufficient:
  assumes "5 \<le> length d"
  shows "apply_trading_strategy now (Some d) p s =
     (let m = fdiv (fadd (fadd (fadd (fadd (fadd (Fin 0) (Fin (close (d ! 0)))) (Fin (close (d ! 1))))
                                          (Fin (close (d ! 2)))) (Fin (close (d ! 3))))
                              (Fin (close (d ! 4)))) 5
      in if gt m (Fin (open (d ! 0))) then
           log_trade now \<lparr>ti_symbol = symbol (d ! 0), ti_action = ''buy call'', ti_price = p\<rparr>
             (st_success [Txt ''Average close is above the first open; buying calls at $'', Num p] s)
         else if lt m (Fin (open (d ! 0))) then
           log_trade now \<lparr>ti_symbol = symbol (d ! 0), ti_action = ''buy put'', ti_price = p\<rparr>
             (st_success [Txt ''Average close is below the first open; buying puts at $'', Num p] s)
         else
           log_trade now \<lparr>ti_symbol = symbol (d ! 0), ti_action = ''hold'', ti_price = p\<rparr>
             (st_info [Txt ''Average close is equal to the first open; no action recommended.''] s))"
proof -
  have ne: "d \<noteq> []" using assms by auto
  show ?thesis
    using assms
    by (simp add: apply_trading_strategy_def mean_head5 hd_conv_nth0 [OF ne] Let_def
          del: fadd.simps fdiv.simps)
qed

lemma strategy_insufficient:
  "data = None \<or> length (the data) < 5 \<Longrightarrow>
   apply_trading_strategy now data p s = st_error [Txt ''Not enough data to apply the strategy.''] s"
  by (auto simp: apply_trading_strategy_def)

lemma entries_st [simp]:
  "entries (st_success m s) = entries s"
  "entries (st_info m s) = entries s"
  "entries (st_error m s) = entries s"
  by (simp_all add: entries_def st_success_def st_info_def st_error_def)

lemma entries_strategy:
  assumes "5 \<le> length d"
  shows "entries (apply_trading_strategy now (Some d) p s) =
     entries s @
       [[FTime now, FStr (symbol (d ! 0)),
         FStr (let m = fdiv (fadd (fadd (fadd (fadd (fadd (Fin 0) (Fin (close (d ! 0)))) (Fin (close (d ! 1))))
                                          (Fin (close (d ! 2)))) (Fin (close (d ! 3))))
                              (Fin (close (d ! 4)))) 5
               in if gt m (Fin (open (d ! 0))) then ''buy call''
                  else if lt m (Fin (open (d ! 0))) then ''buy put'' else ''hold''),
         FNum p]]"
  by (simp add: strategy_sufficient [OF assms] Let_def entries_log_trade
        del: fadd.simps fdiv.simps)

lemma all_less_numeral_5: "(\<forall>i<5. P (i::nat)) = (P 0 \<and> P 1 \<and> P 2 \<and> P 3 \<and> P 4)"
proof
  assume "\<forall>i<5. P i"
  then show "P 0 \<and> P 1 \<and> P 2 \<and> P 3 \<and> P 4" by simp
next
  assume h: "P 0 \<and> P 1 \<and> P 2 \<and> P 3 \<and> P 4"
  show "\<forall>i<5. P i"
  proof (intro allI impI)
    fix i :: nat
    assume "i < 5"
    then have "i = 0 \<or> i = 1 \<or> i = 2 \<or> i = 3 \<or> i = 4" by arith
    with h show "P i" by auto
  qed
qed

text \<open>
  The sums and means of the examples, in float arithmetic.
\<close>

lemma entries_blank: "entries blank = []"
  by (simp add: entries_def blank_def)

lemma eleven_cents_float: "fl (11 / 100) = Fin eleven_cents"
  by (simp add: fl_eval eleven_cents_def)

lemma mean_eleven_cents:
  "fdiv (fadd (fadd (fadd (fadd (fadd (Fin 0) (Fin eleven_cents)) (Fin eleven_cents))
                          (Fin eleven_cents)) (Fin eleven_cents)) (Fin eleven_cents)) 5
     = Fin (3963167672086037 / 36028797018963968)"
  by (simp add: fl_eval eleven_cents_def)

lemma mean_near_2_53:
  "fdiv (fadd (fadd (fadd (fadd (fadd (Fin 0) (Fin 9007199254740992)) (Fin 9007199254740992))
                          (Fin 9007199254740992)) (Fin 9007199254740992))
              (Fin 9007199254740994)) 5
     = Fin 9007199254740992"
  by (simp add: fl_eval)

lemma mean_10_to_14:
  "fdiv (fadd (fadd (fadd (fadd (fadd (Fin 0) (Fin 10)) (Fin 11)) (Fin 12)) (Fin 13)) (Fin 14)) 5
     = Fin 12"
  by (simp add: fl_eval)

lemma mean_10_to_6:
  "fdiv (fadd (fadd (fadd (fadd (fadd (Fin 0) (Fin 10)) (Fin 9)) (Fin 8)) (Fin 7)) (Fin 6)) 5
     = Fin 8"
  by (simp add: fl_eval)

lemma mean_fives:
  "fdiv (fadd (fadd (fadd (fadd (fadd (Fin 0) (Fin 5)) (Fin 5)) (Fin 5)) (Fin 5)) (Fin 5)) 5
     = Fin 5"
  by (simp add: fl_eval)

text \<open>
  The action is not decided by the exact mean. Five closes of \<^verbatim>\<open>0.11\<close> against an open
  of \<^verbatim>\<open>0.11\<close> have an exact mean equal to the open, and the call logs \<^verbatim>\<open>buy call\<close>: the
  float sum is rounded up and the float mean is the next float above the open. Four closes
  of \<open>2 ^ 53\<close> and one of \<open>2 ^ 53 + 2\<close> against an open of \<open>2 ^ 53\<close> have an exact mean above
  the open, and the call logs \<^verbatim>\<open>hold\<close>: the float sum loses the 2.
\<close>

theorem exact_mean_does_not_decide_action:
  "entries (apply_trading_strategy 7
      (Some [bar eleven_cents eleven_cents, bar 0 eleven_cents, bar 0 eleven_cents,
             bar 0 eleven_cents, bar 0 eleven_cents]) 2 blank)
     = [[FTime 7, FStr ''XYZ'', FStr ''buy call'', FNum 2]]
   \<and> (eleven_cents + eleven_cents + eleven_cents + eleven_cents + eleven_cents) / 5
       = eleven_cents
   \<and> entries (apply_trading_strategy 7
      (Some [bar 9007199254740992 9007199254740992, bar 0 9007199254740992,
             bar 0 9007199254740992, bar 0 9007199254740992, bar 0 9007199254740994]) 2 blank)
     = [[FTime 7, FStr ''XYZ'', FStr ''hold'', FNum 2]]
   \<and> (9007199254740992 + 9007199254740992 + 9007199254740992 + 9007199254740992
        + 9007199254740994) / 5 > (9007199254740992 :: real)"
proof (intro conjI)
  show "entries (apply_trading_strategy 7
      (Some [bar eleven_cents eleven_cents, bar 0 eleven_cents, bar 0 eleven_cents,
             bar 0 eleven_cents, bar 0 eleven_cents]) 2 blank)
     = [[FTime 7, FStr ''XYZ'', FStr ''buy call'', FNum 2]]"
    by (simp add: entries_strategy entries_blank bar_def mean_eleven_cents lt_def
          del: fadd.simps fdiv.simps)
      (simp add: eleven_cents_def)
  show "(eleven_cents + eleven_cents + eleven_cents + eleven_cents + eleven_cents) / 5
       = eleven_cents"
    by simp
  show "entries (apply_trading_strategy 7
      (Some [bar 9007199254740992 9007199254740992, bar 0 9007199254740992,
             bar 0 9007199254740992, bar 0 9007199254740992, bar 0 9007199254740994]) 2 blank)
     = [[FTime 7, FStr ''XYZ'', FStr ''hold'', FNum 2]]"
    by (simp add: entries_strategy entries_blank bar_def mean_near_2_53 lt_def
          del: fadd.simps fdiv.simps)
  show "(9007199254740992 + 9007199254740992 + 9007199254740992 + 9007199254740992
        + 9007199254740994) / 5 > (9007199254740992 :: real)"
    by simp
qed

text \<open>
  C1, with the mean as the code computes it. For a frame of at least five rows and any
  target price, the action written to the log is decided by the float mean of the column
  \<^verbatim>\<open>close\<close> over the first five rows against the \<^verbatim>\<open>open\<close> of the first row: above it
  the action is \<^verbatim>\<open>buy call\<close>, below it \<^verbatim>\<open>buy put\<close>, otherwise, which is when the two
  are equal, \<^verbatim>\<open>hold\<close>. The float mean is the five closes added in series order, every
  sum rounded to the nearest float, and the last sum divided by 5 and rounded.
\<close>

theorem strategy_action_by_float_mean_of_first_five:
  assumes "5 \<le> length d"
  shows "entries (apply_trading_strategy now (Some d) p s) =
     entries s @
       [[FTime now, FStr (symbol (d ! 0)),
         FStr (let m = fdiv (fadd (fadd (fadd (fadd (fadd (Fin 0) (Fin (close (d ! 0))))
                                                    (Fin (close (d ! 1))))
                                              (Fin (close (d ! 2))))
                                        (Fin (close (d ! 3))))
                                  (Fin (close (d ! 4)))) 5
               in if gt m (Fin (open (d ! 0))) then ''buy call''
                  else if lt m (Fin (open (d ! 0))) then ''buy put'' else ''hold''),
         FNum p]]"
  using entries_strategy [OF assms] by (simp add: Let_def del: fadd.simps fdiv.simps)

text \<open>
  C1 on closes 10 to 14 against an open of 11, on closes 10 down to 6 against an open of
  11, and on five closes of 5 against an open of 5 with a sixth row that differs; all the
  sums and means of these are exact.
\<close>

theorem strategy_action_by_float_mean_of_first_five_witness:
  "entries (apply_trading_strategy 7 (Some [bar 11 10, bar 0 11, bar 0 12, bar 0 13, bar 0 14]) 2 blank)
     = [[FTime 7, FStr ''XYZ'', FStr ''buy call'', FNum 2]]
   \<and> entries (apply_trading_strategy 7 (Some [bar 11 10, bar 0 9, bar 0 8, bar 0 7, bar 0 6]) 2 blank)
     = [[FTime 7, FStr ''XYZ'', FStr ''buy put'', FNum 2]]
   \<and> entries (apply_trading_strategy 7 (Some [bar 5 5, bar 0 5, bar 0 5, bar 0 5, bar 0 5, bar 3 9]) 2 blank)
     = [[FTime 7, FStr ''XYZ'', FStr ''hold'', FNum 2]]"
  using strategy_action_by_float_mean_of_first_five
          [of "[bar 11 10, bar 0 11, bar 0 12, bar 0 13, bar 0 14]" 7 2 blank]
        strategy_action_by_float_mean_of_first_five
          [of "[bar 11 10, bar 0 9, bar 0 8, bar 0 7, bar 0 6]" 7 2 blank]
        strategy_action_by_float_mean_of_first_five
          [of "[bar 5 5, bar 0 5, bar 0 5, bar 0 5, bar 0 5, bar 3 9]" 7 2 blank]
  by (simp add: bar_def entries_blank mean_10_to_14 mean_10_to_6 mean_fives lt_def
        del: fadd.simps fdiv.simps)

text \<open>
  A call with a frame of one row, which is what the driver passes, leaves the log as it
  was: its length does not grow by one.
\<close>

theorem short_call_logs_nothing:
  "length (entries (apply_trading_strategy 7 (Some [bar 11 10]) 2 blank)) \<noteq> length (entries blank) + 1"
  by (simp add: apply_trading_strategy_def)

text \<open>
  C6, for calls that pass the length check. A call with a frame of at least five rows
  makes the log one row longer, and the last row carries the target price of the call in
  its price field, whatever the action.
\<close>

theorem strategy_logs_target_price:
  assumes "5 \<le> length d"
  shows "length (entries (apply_trading_strategy now (Some d) p s)) = length (entries s) + 1
       \<and> (\<exists>sym a. last (entries (apply_trading_strategy now (Some d) p s))
                     = [FTime now, FStr sym, FStr a, FNum p])"
  by (simp add: entries_strategy [OF assms])

text \<open>
  C6 on five equal closes, where the action is to hold.
\<close>

theorem strategy_logs_target_price_witness:
  "length (entries (apply_trading_strategy 7 (Some [bar 5 5, bar 0 5, bar 0 5, bar 0 5, bar 0 5]) 2 blank))
     = length (entries blank) + 1
   \<and> (\<exists>sym a. last (entries (apply_trading_strategy 7 (Some [bar 5 5, bar 0 5, bar 0 5, bar 0 5, bar 0 5]) 2 blank))
                  = [FTime 7, FStr sym, FStr a, FNum 2])"
  using strategy_logs_target_price [of "[bar 5 5, bar 0 5, bar 0 5, bar 0 5, bar 0 5]" 7 2 blank]
  by simp

text \<open>
  C7. For a frame of fewer than five rows the strategy writes the error message to the
  page and does nothing else: no action is shown and no trade is logged.
\<close>

theorem strategy_reports_insufficient_data:
  assumes "length d < 5"
  shows "apply_trading_strategy now (Some d) p s =
           s\<lparr>page := page s @ [(Error, [Txt ''Not enough data to apply the strategy.''])]\<rparr>"
  using assms by (simp add: strategy_insufficient st_error_def)

text \<open>
  C7 on a frame of four rows.
\<close>

theorem strategy_reports_insufficient_data_witness:
  "apply_trading_strategy 7 (Some [bar 11 10, bar 0 11, bar 0 12, bar 0 13]) 2 blank =
     \<lparr>page = [(Error, [Txt ''Not enough data to apply the strategy.''])], trade_log = None\<rparr>"
  using strategy_reports_insufficient_data [of "[bar 11 10, bar 0 11, bar 0 12, bar 0 13]" 7 2 blank]
  by (simp add: blank_def)

text \<open>
  C9. When there is no frame or the frame has fewer than five rows, the log file is
  left as it was.
\<close>

theorem failed_precondition_keeps_trade_log:
  assumes "data = None \<or> length (the data) < 5"
  shows "trade_log (apply_trading_strategy now data p s) = trade_log s"
  using assms by (simp add: strategy_insufficient st_error_def)

text \<open>
  C9 on a missing frame with one row in the log, and on a frame of one row with no log file.
\<close>

theorem failed_precondition_keeps_trade_log_witness:
  "trade_log (apply_trading_strategy 7 None 2 (log_trade 3 \<lparr>ti_symbol = ''XYZ'', ti_action = ''hold'', ti_price = 1\<rparr> blank))
     = Some [[FTime 3, FStr ''XYZ'', FStr ''hold'', FNum 1]]
   \<and> trade_log (apply_trading_strategy 7 (Some [bar 11 10]) 2 blank) = None"
  using failed_precondition_keeps_trade_log
          [of None 7 2 "log_trade 3 \<lparr>ti_symbol = ''XYZ'', ti_action = ''hold'', ti_price = 1\<rparr> blank"]
        failed_precondition_keeps_trade_log [of "Some [bar 11 10]" 7 2 blank]
  by (simp add: blank_def log_trade_def st_success_def)

text \<open>
  C10. Two frames of at least five rows that agree on the \<^verbatim>\<open>close\<close> of their first five
  rows and on the \<^verbatim>\<open>open\<close> of their first row get the same action, whatever the
  target prices, clock readings and states of the two calls, and whatever their other
  rows, highs, lows and symbols.
\<close>

theorem action_depends_on_first_closes_and_open_only:
  assumes "5 \<le> length d1" and "5 \<le> length d2"
    and "\<forall>i<5. close (d1 ! i) = close (d2 ! i)"
    and "open (d1 ! 0) = open (d2 ! 0)"
  shows "\<exists>a. last (entries (apply_trading_strategy now1 (Some d1) p1 s1))
                = [FTime now1, FStr (symbol (d1 ! 0)), FStr a, FNum p1]
            \<and> last (entries (apply_trading_strategy now2 (Some d2) p2 s2))
                = [FTime now2, FStr (symbol (d2 ! 0)), FStr a, FNum p2]"
proof -
  have "close (d1 ! 0) = close (d2 ! 0)" "close (d1 ! 1) = close (d2 ! 1)"
       "close (d1 ! 2) = close (d2 ! 2)" "close (d1 ! 3) = close (d2 ! 3)"
       "close (d1 ! 4) = close (d2 ! 4)"
    using assms(3) by simp_all
  then show ?thesis
    using assms(4)
    by (simp add: entries_strategy [OF assms(1)] entries_strategy [OF assms(2)] Let_def
          del: fadd.simps fdiv.simps)
qed

text \<open>
  C10 on a frame of five rows and a frame of seven that differs from it in symbol,
  highs, lows, the later opens and the rows after the fifth.
\<close>

theorem action_depends_on_first_closes_and_open_only_witness:
  "\<exists>a. last (entries (apply_trading_strategy 7
                 (Some [bar 11 10, bar 0 11, bar 0 12, bar 0 13, bar 0 14]) 2 blank))
            = [FTime 7, FStr ''XYZ'', FStr a, FNum 2]
      \<and> last (entries (apply_trading_strategy 8
                 (Some [(bar 11 10)\<lparr>symbol := ''ABC'', high := 99\<rparr>, bar 1 11, bar 2 12,
                        (bar 3 13)\<lparr>low := 0\<rparr>, bar 4 14, bar 5 1000, bar 6 0]) 3 blank))
            = [FTime 8, FStr ''ABC'', FStr a, FNum 3]"
proof -
  have "\<forall>i<5. close ([bar 11 10, bar 0 11, bar 0 12, bar 0 13, bar 0 14] ! i) =
               close ([(bar 11 10)\<lparr>symbol := ''ABC'', high := 99\<rparr>, bar 1 11, bar 2 12,
                       (bar 3 13)\<lparr>low := 0\<rparr>, bar 4 14, bar 5 1000, bar 6 0] ! i)"
    by (simp add: bar_def all_less_numeral_5)
  then show ?thesis
    using action_depends_on_first_closes_and_open_only
            [of "[bar 11 10, bar 0 11, bar 0 12, bar 0 13, bar 0 14]"
                "[(bar 11 10)\<lparr>symbol := ''ABC'', high := 99\<rparr>, bar 1 11, bar 2 12,
                  (bar 3 13)\<lparr>low := 0\<rparr>, bar 4 14, bar 5 1000, bar 6 0]" 7 2 blank 8 3 blank]
    by (simp add: bar_def)
qed

end
